theory Spec2Isabelle
  imports Main
begin

section \<open>The agent receiver: forwarding to the REST API (checkmk_rest_api.py)\<close>

text \<open>
  Exceptions of the Python code are values of \<open>error\<close>; a function that may raise
  returns \<open>error + 'a\<close> with \<open>Inl\<close> for the exception. \<open>HTTPException\<close> carries
  the \<open>status_code\<close> and the \<open>detail\<close> it is raised with.
\<close>

datatype error =
    HTTPException int string
  | KeyError string
  | IndexError
  | JSONDecodeError
  | ConnectionError
  | FileExistsError
  | FileNotFoundError
  | NotADirectoryError
  | IsADirectoryError
  | OSError string
  | ShutilError

type_synonym json = "(string \<times> string) list"

text \<open>
  A \<open>requests.Response\<close>: the status code, the body as text, and what \<open>.json()\<close>
  gives for that body (\<open>None\<close> when the body does not decode, where \<open>.json()\<close> raises).
\<close>

record response =
  status_code :: int
  resp_text :: string
  resp_json :: "json option"

text \<open>
  \<open>Response.ok\<close> of the requests library: \<open>raise_for_status()\<close> raises for
  \<open>400 <= status_code < 600\<close>, and \<open>ok\<close> is \<open>True\<close> when it does not raise.
\<close>

definition ok :: "response \<Rightarrow> bool" where
  "ok r = (\<not> (400 \<le> status_code r \<and> status_code r < 600))"

text \<open>
  What the module reaches outside itself: the process environment (\<open>os.environ\<close>), the
  HTTP transport (\<open>requests.post\<close>, \<open>requests.get\<close>; \<open>Inl\<close> when the transport
  raises), and the X.509 parser. \<open>csr_common_names csr\<close> is the list of values that
  \<open>load_pem_x509_csr(csr).subject.get_attributes_for_oid(COMMON_NAME)\<close> returns, and
  \<open>None\<close> where \<open>load_pem_x509_csr\<close> raises \<open>ValueError\<close>.
\<close>

record world =
  environ :: "string \<rightharpoonup> string"
  requests_post :: "string \<Rightarrow> (string \<times> string) list \<Rightarrow> json \<Rightarrow> error + response"
  requests_get :: "string \<Rightarrow> (string \<times> string) list \<Rightarrow> error + response"
  csr_common_names :: "string \<Rightarrow> string list option"

definition local_rest_api_url :: "world \<Rightarrow> error + string" where
  "local_rest_api_url w =
     (case environ w ''OMD_SITE'' of
        None \<Rightarrow> Inl (KeyError ''OMD_SITE'')
      | Some site \<Rightarrow> Inr (''http://localhost/'' @ site @ ''/check_mk/api/1.0''))"

definition forward_post :: "world \<Rightarrow> string \<Rightarrow> string \<Rightarrow> json \<Rightarrow> error + response" where
  "forward_post w endpoint authentication json_body =
     (case local_rest_api_url w of
        Inl e \<Rightarrow> Inl e
      | Inr url \<Rightarrow>
          requests_post w (url @ ''/'' @ endpoint)
            [(''Authorization'', authentication), (''Accept'', ''application/json'')]
            json_body)"

definition forward_get :: "world \<Rightarrow> string \<Rightarrow> string \<Rightarrow> error + response" where
  "forward_get w endpoint authentication =
     (case local_rest_api_url w of
        Inl e \<Rightarrow> Inl e
      | Inr url \<Rightarrow>
          requests_get w (url @ ''/'' @ endpoint) [(''Authorization'', authentication)])"

definition post_csr :: "world \<Rightarrow> string \<Rightarrow> string \<Rightarrow> error + response" where
  "post_csr w authentication csr = forward_post w ''csr'' authentication [(''csr'', csr)]"

definition HTTPStatus_OK :: int where
  "HTTPStatus_OK = 200"

definition host_exists :: "world \<Rightarrow> string \<Rightarrow> string \<Rightarrow> error + bool" where
  "host_exists w authentication host_name =
     (case forward_get w (''objects/host_config/'' @ host_name) authentication of
        Inl e \<Rightarrow> Inl e
      | Inr r \<Rightarrow> Inr (status_code r = HTTPStatus_OK))"

section \<open>The gateway: pairing (server.py)\<close>

text \<open>\<open>str(authentication)\<close> for the optional header: \<open>str(None)\<close> is \<open>"None"\<close>.\<close>

definition str_opt :: "string option \<Rightarrow> string" where
  "str_opt a = (case a of None \<Rightarrow> ''None'' | Some s \<Rightarrow> s)"

text \<open>
  \<open>_uuid_from_pem_csr\<close>: the first common name of the request's subject. Only
  \<open>ValueError\<close> is caught; indexing an empty attribute list raises \<open>IndexError\<close>.
\<close>

definition uuid_from_pem_csr :: "world \<Rightarrow> string \<Rightarrow> error + string" where
  "uuid_from_pem_csr w pem_csr =
     (case csr_common_names w pem_csr of
        None \<Rightarrow> Inr ''[CSR parsing failed]''
      | Some [] \<Rightarrow> Inl IndexError
      | Some (cn # _) \<Rightarrow> Inr cn)"

text \<open>
  What a route hands back on success: the status code of the HTTP response and its body.
  A route declared without \<open>status_code\<close> answers with the framework's default, 200.
\<close>

record 'a reply =
  reply_status :: int
  reply_body :: 'a

definition default_status_code :: int where
  "default_status_code = 200"

text \<open>
  \<open>pairing\<close>. The arguments of each \<open>logger.info\<close> call are evaluated before the
  following \<open>return\<close> or \<open>raise\<close>, so an exception of \<open>_uuid_from_pem_csr\<close>
  comes first.
\<close>

definition pairing :: "world \<Rightarrow> string option \<Rightarrow> string \<Rightarrow> error + json reply" where
  "pairing w authentication csr =
     (case post_csr w (str_opt authentication) csr of
        Inl e \<Rightarrow> Inl e
      | Inr rest_api_csr_resp \<Rightarrow>
          if ok rest_api_csr_resp then
            (case uuid_from_pem_csr w csr of
               Inl e \<Rightarrow> Inl e
             | Inr _ \<Rightarrow>
                 (case resp_json rest_api_csr_resp of
                    None \<Rightarrow> Inl JSONDecodeError
                  | Some j \<Rightarrow> Inr \<lparr>reply_status = default_status_code, reply_body = j\<rparr>))
          else
            (case uuid_from_pem_csr w csr of
               Inl e \<Rightarrow> Inl e
             | Inr _ \<Rightarrow>
                 Inl (HTTPException (status_code rest_api_csr_resp)
                        (resp_text rest_api_csr_resp))))"

section \<open>Paths and the file system\<close>

text \<open>
  A path is the list of its components (all paths are absolute). \<open>joinpath\<close> is
  pathlib's \<open>/\<close> with a string on the right: the string is split at \<open>/\<close>, empty
  components and \<open>.\<close> are dropped, and a string that starts with \<open>/\<close> replaces the
  left operand. \<open>..\<close> is kept as a component, as pathlib keeps it.
\<close>

type_synonym path = "string list"

fun split_slash :: "string \<Rightarrow> string list" where
  "split_slash [] = [[]]"
| "split_slash (c # cs) =
     (if c = CHR ''/'' then [] # split_slash cs
      else (case split_slash cs of [] \<Rightarrow> [[c]] | w # ws \<Rightarrow> (c # w) # ws))"

definition parts :: "string \<Rightarrow> path" where
  "parts s = filter (\<lambda>w. w \<noteq> [] \<and> w \<noteq> ''.'') (split_slash s)"

definition joinpath :: "path \<Rightarrow> string \<Rightarrow> path" where
  "joinpath p s = (case s of c # _ \<Rightarrow> if c = CHR ''/'' then parts s else p @ parts s | [] \<Rightarrow> p)"

text \<open>\<open>Path.name\<close>: the final component, the empty string for the root.\<close>

definition path_name :: "path \<Rightarrow> string" where
  "path_name p = (case rev p of [] \<Rightarrow> [] | n # _ \<Rightarrow> n)"

definition path_parent :: "path \<Rightarrow> path" where
  "path_parent p = butlast p"

text \<open>
  The file system maps the canonical path of an entry to what is there: a directory, a
  regular file with its content, or a symbolic link with its target. The model is flat:
  an entry is found by one lookup once the directory that holds it is resolved.
\<close>

datatype node = Dir | File string | Symlink path

type_synonym fs = "path \<rightharpoonup> node"

text \<open>
  Following symbolic links at a path, at most 40 of them (the kernel's limit, \<open>ELOOP\<close>
  beyond it).
\<close>

fun follow :: "nat \<Rightarrow> fs \<Rightarrow> path \<Rightarrow> error + path" where
  "follow 0 fs p =
     (case fs p of Some (Symlink t) \<Rightarrow> Inl (OSError ''ELOOP'') | _ \<Rightarrow> Inr p)"
| "follow (Suc n) fs p =
     (case fs p of Some (Symlink t) \<Rightarrow> follow n fs t | _ \<Rightarrow> Inr p)"

definition realdir :: "fs \<Rightarrow> path \<Rightarrow> error + path" where
  "realdir fs p =
     (case follow 40 fs p of
        Inl e \<Rightarrow> Inl e
      | Inr q \<Rightarrow>
          (case fs q of
             None \<Rightarrow> Inl FileNotFoundError
           | Some Dir \<Rightarrow> Inr q
           | Some _ \<Rightarrow> Inl NotADirectoryError))"

text \<open>
  \<open>lpath\<close>: where the entry named by a path lives. The directory part is resolved (it
  must be a directory, possibly through links); the entry itself is not followed.
\<close>

definition lpath :: "fs \<Rightarrow> path \<Rightarrow> error + path" where
  "lpath fs p =
     (if p = [] then Inr []
      else (case realdir fs (path_parent p) of
              Inl e \<Rightarrow> Inl e
            | Inr d \<Rightarrow> Inr (d @ [path_name p])))"

definition lstat :: "fs \<Rightarrow> path \<Rightarrow> error + (path \<times> node)" where
  "lstat fs p =
     (case lpath fs p of
        Inl e \<Rightarrow> Inl e
      | Inr q \<Rightarrow> (case fs q of None \<Rightarrow> Inl FileNotFoundError | Some n \<Rightarrow> Inr (q, n)))"

definition stat :: "fs \<Rightarrow> path \<Rightarrow> error + (path \<times> node)" where
  "stat fs p =
     (case lpath fs p of
        Inl e \<Rightarrow> Inl e
      | Inr q \<Rightarrow>
          (case follow 40 fs q of
             Inl e \<Rightarrow> Inl e
           | Inr q' \<Rightarrow> (case fs q' of None \<Rightarrow> Inl FileNotFoundError | Some n \<Rightarrow> Inr (q', n))))"

text \<open>\<open>Path.exists\<close>, \<open>os.path.exists\<close>, \<open>os.path.isdir\<close>, \<open>os.path.islink\<close>: an error of the lookup is \<open>False\<close>.\<close>

definition path_exists :: "fs \<Rightarrow> path \<Rightarrow> bool" where
  "path_exists fs p = (case stat fs p of Inl _ \<Rightarrow> False | Inr _ \<Rightarrow> True)"

definition os_path_isdir :: "fs \<Rightarrow> path \<Rightarrow> bool" where
  "os_path_isdir fs p = (case stat fs p of Inr (_, Dir) \<Rightarrow> True | _ \<Rightarrow> False)"

definition os_path_islink :: "fs \<Rightarrow> path \<Rightarrow> bool" where
  "os_path_islink fs p = (case lstat fs p of Inr (_, Symlink _) \<Rightarrow> True | _ \<Rightarrow> False)"

text \<open>\<open>os.symlink(target, link)\<close>, which \<open>Path.symlink_to\<close> calls: the target need not exist.\<close>

definition os_symlink :: "fs \<Rightarrow> path \<Rightarrow> path \<Rightarrow> error + fs" where
  "os_symlink fs target link =
     (case lpath fs link of
        Inl e \<Rightarrow> Inl e
      | Inr q \<Rightarrow> if fs q \<noteq> None then Inl FileExistsError else Inr (fs(q \<mapsto> Symlink target)))"

definition os_readlink :: "fs \<Rightarrow> path \<Rightarrow> error + path" where
  "os_readlink fs p =
     (case lstat fs p of
        Inl e \<Rightarrow> Inl e
      | Inr (_, Symlink t) \<Rightarrow> Inr t
      | Inr _ \<Rightarrow> Inl (OSError ''EINVAL''))"

definition os_unlink :: "fs \<Rightarrow> path \<Rightarrow> error + fs" where
  "os_unlink fs p =
     (case lstat fs p of
        Inl e \<Rightarrow> Inl e
      | Inr (_, Dir) \<Rightarrow> Inl IsADirectoryError
      | Inr (q, _) \<Rightarrow> Inr (fs(q := None)))"

text \<open>
  \<open>os.rename(src, dst)\<close>: the entry at \<open>src\<close> (a link is moved, not followed) replaces
  what is at \<open>dst\<close> in one step. A file cannot replace a directory, nor a directory a
  file. A directory that is replaced is taken to be empty, and a directory that is moved
  to take nothing with it: the routes move files only.
\<close>

definition os_rename :: "fs \<Rightarrow> path \<Rightarrow> path \<Rightarrow> error + fs" where
  "os_rename fs src dst =
     (case lstat fs src of
        Inl e \<Rightarrow> Inl e
      | Inr (s, n) \<Rightarrow>
          (case lpath fs dst of
             Inl e \<Rightarrow> Inl e
           | Inr d \<Rightarrow>
               if s = d then Inr fs
               else if n = Dir \<and> fs d \<noteq> None \<and> fs d \<noteq> Some Dir then Inl NotADirectoryError
               else if n \<noteq> Dir \<and> fs d = Some Dir then Inl IsADirectoryError
               else Inr (fs(s := None, d \<mapsto> n))))"

definition os_mkdir :: "fs \<Rightarrow> path \<Rightarrow> error + fs" where
  "os_mkdir fs p =
     (case lpath fs p of
        Inl e \<Rightarrow> Inl e
      | Inr q \<Rightarrow> if fs q \<noteq> None then Inl FileExistsError else Inr (fs(q \<mapsto> Dir)))"

text \<open>
  \<open>os.makedirs(name)\<close>: the missing ancestors first, then the directory itself. The
  recursion of the library goes up the path; the first argument bounds it by the length
  of the path.
\<close>

fun makedirs :: "nat \<Rightarrow> fs \<Rightarrow> path \<Rightarrow> error + fs" where
  "makedirs 0 fs p = os_mkdir fs p"
| "makedirs (Suc n) fs p =
     (if p \<noteq> [] \<and> path_parent p \<noteq> [] \<and> \<not> path_exists fs (path_parent p) then
        (case makedirs n fs (path_parent p) of
           Inl e \<Rightarrow> if e = FileExistsError then os_mkdir fs p else Inl e
         | Inr fs' \<Rightarrow> os_mkdir fs' p)
      else os_mkdir fs p)"

text \<open>
  \<open>tempfile.mkstemp(dir=...)\<close>: the candidate names are \<open>tmp\<close> followed by a random
  suffix; the first one that does not exist in the directory is created exclusively, as
  an empty file. The result is the new file system, the place of the open file (what the
  descriptor refers to) and the path \<open>dir/name\<close> handed to the caller. With no usable
  name left the library raises \<open>FileExistsError\<close>.
\<close>

fun mkstemp :: "fs \<Rightarrow> string list \<Rightarrow> path \<Rightarrow> error + (fs \<times> path \<times> path)" where
  "mkstemp fs [] dir = Inl FileExistsError"
| "mkstemp fs (suffix # rest) dir =
     (let file = dir @ [''tmp'' @ suffix] in
      case lpath fs file of
        Inl e \<Rightarrow> Inl e
      | Inr q \<Rightarrow> if fs q \<noteq> None then mkstemp fs rest dir else Inr (fs(q \<mapsto> File []), q, file))"

text \<open>
  The uploaded file as the read loop of \<open>shutil.copyfileobj\<close> sees it: chunks, then the
  end of the data, or an I/O error on the way. An empty chunk ends the loop as the end of
  the data does. The result is what has been written to the target and the exception, if
  any.
\<close>

datatype upload_stream = EOF | Chunk string upload_stream | IOFail

fun copyfileobj :: "upload_stream \<Rightarrow> string \<Rightarrow> string \<times> error option" where
  "copyfileobj EOF written = (written, None)"
| "copyfileobj IOFail written = (written, Some (OSError ''EIO''))"
| "copyfileobj (Chunk buf rest) written =
     (if buf = [] then (written, None) else copyfileobj rest (written @ buf))"

definition samefile :: "fs \<Rightarrow> path \<Rightarrow> path \<Rightarrow> bool" where
  "samefile fs a b =
     (case stat fs a of
        Inl _ \<Rightarrow> False
      | Inr (p, _) \<Rightarrow> (case stat fs b of Inl _ \<Rightarrow> False | Inr (q, _) \<Rightarrow> p = q))"

text \<open>\<open>shutil.copy2(src, dst)\<close> for a regular file: read through links, write through links.\<close>

definition copy2 :: "fs \<Rightarrow> path \<Rightarrow> path \<Rightarrow> error + fs" where
  "copy2 fs src dst =
     (let dst' = (if os_path_isdir fs dst then dst @ [path_name src] else dst) in
      case stat fs src of
        Inl e \<Rightarrow> Inl e
      | Inr (_, Dir) \<Rightarrow> Inl IsADirectoryError
      | Inr (_, Symlink _) \<Rightarrow> Inl (OSError ''ELOOP'')
      | Inr (_, File content) \<Rightarrow>
          (case lpath fs dst' of
             Inl e \<Rightarrow> Inl e
           | Inr q \<Rightarrow>
               (case follow 40 fs q of
                  Inl e \<Rightarrow> Inl e
                | Inr q' \<Rightarrow>
                    if fs q' = Some Dir then Inl IsADirectoryError
                    else Inr (fs(q' \<mapsto> File content)))))"

text \<open>
  \<open>shutil.move(src, dst)\<close>, after the library: into \<open>dst\<close> when that is a directory
  (refusing an entry that is already there), by \<open>os.rename\<close> first; when the rename
  raises, a link is recreated, a directory is recreated with \<open>copytree\<close> (which makes
  the missing directories above it) and a file is copied, and the source is removed.
\<close>

definition shutil_move :: "fs \<Rightarrow> path \<Rightarrow> path \<Rightarrow> error + fs" where
  "shutil_move fs src dst =
     (let real_dst = (if os_path_isdir fs dst then dst @ [path_name src] else dst) in
      if os_path_isdir fs dst \<and> samefile fs src dst then os_rename fs src dst
      else if os_path_isdir fs dst \<and> path_exists fs real_dst then Inl ShutilError
      else
        (case os_rename fs src real_dst of
           Inr fs' \<Rightarrow> Inr fs'
         | Inl _ \<Rightarrow>
             if os_path_islink fs src then
               (case os_readlink fs src of
                  Inl e \<Rightarrow> Inl e
                | Inr linkto \<Rightarrow>
                    (case os_symlink fs linkto real_dst of
                       Inl e \<Rightarrow> Inl e
                     | Inr fs1 \<Rightarrow> os_unlink fs1 src))
             else if os_path_isdir fs src then
               (if take (length src) dst = src then Inl ShutilError
                else
                  (case makedirs (length real_dst) fs real_dst of
                     Inl e \<Rightarrow> Inl e
                   | Inr fs1 \<Rightarrow>
                       (case lpath fs1 src of
                          Inl e \<Rightarrow> Inl e
                        | Inr s \<Rightarrow> Inr (fs1(s := None)))))
             else
               (case copy2 fs src real_dst of
                  Inl e \<Rightarrow> Inl e
                | Inr fs1 \<Rightarrow> os_unlink fs1 src)))"

section \<open>The gateway: registration and data upload (server.py)\<close>

text \<open>
  The directories of \<open>agent_receiver.constants\<close>. That module is not part of the
  sources at hand; the three paths are parameters of the model.
\<close>

record constants =
  AGENT_OUTPUT_DIR :: path
  DATA_SOURCE_DIR :: path
  REGISTRATION_REQUESTS :: path

definition HTTP_204_NO_CONTENT :: int where
  "HTTP_204_NO_CONTENT = 204"

definition HTTP_404_NOT_FOUND :: int where
  "HTTP_404_NOT_FOUND = 404"

definition create_link :: "fs \<Rightarrow> path \<Rightarrow> path \<Rightarrow> string \<Rightarrow> string \<Rightarrow> error + fs" where
  "create_link fs source_dir target_dir uuid host_name =
     os_symlink fs (joinpath target_dir host_name) (joinpath source_dir uuid)"

text \<open>
  The routes take the file system and return their outcome with the file system they
  leave behind.
\<close>

definition register_with_hostname ::
  "constants \<Rightarrow> world \<Rightarrow> fs \<Rightarrow> string option \<Rightarrow> string \<Rightarrow> string \<Rightarrow> (error + unit reply) \<times> fs" where
  "register_with_hostname c w fs authentication uuid host_name =
     (case host_exists w (str_opt authentication) host_name of
        Inl e \<Rightarrow> (Inl e, fs)
      | Inr exists \<Rightarrow>
          if \<not> exists then
            (Inl (HTTPException HTTP_404_NOT_FOUND (''Host '' @ host_name @ '' does not exist'')), fs)
          else
            (case create_link fs (AGENT_OUTPUT_DIR c) (DATA_SOURCE_DIR c) uuid host_name of
               Inl e \<Rightarrow> (Inl e, fs)
             | Inr fs' \<Rightarrow> (Inr \<lparr>reply_status = HTTP_204_NO_CONTENT, reply_body = ()\<rparr>, fs')))"

definition get_hostname :: "constants \<Rightarrow> fs \<Rightarrow> string \<Rightarrow> error + string option" where
  "get_hostname c fs uuid =
     (let link_path = joinpath (AGENT_OUTPUT_DIR c) uuid in
      case os_readlink fs link_path of
        Inl e \<Rightarrow> if e = FileNotFoundError then Inr None else Inl e
      | Inr target_path \<Rightarrow> Inr (Some (path_name target_path)))"

text \<open>
  The \<open>try\<close> block of \<open>agent_data\<close>: the temporary file, the copy into it, the rename
  over \<open>file_path\<close>. On an exception the temporary file stays where it is.
\<close>

definition save_payload ::
  "fs \<Rightarrow> string list \<Rightarrow> path \<Rightarrow> path \<Rightarrow> upload_stream \<Rightarrow> (error + unit) \<times> fs" where
  "save_payload fs names file_dir file_path upload_file =
     (case mkstemp fs names file_dir of
        Inl e \<Rightarrow> (Inl e, fs)
      | Inr (fs1, file_handle, temp_path) \<Rightarrow>
          (case copyfileobj upload_file [] of
             (written, Some e) \<Rightarrow> (Inl e, fs1(file_handle \<mapsto> File written))
           | (written, None) \<Rightarrow>
               (let fs2 = fs1(file_handle \<mapsto> File written) in
                case os_rename fs2 temp_path file_path of
                  Inl e \<Rightarrow> (Inl e, fs2)
                | Inr fs3 \<Rightarrow> (Inr (), fs3))))"

definition agent_data_saved :: "json reply" where
  "agent_data_saved = \<lparr>reply_status = default_status_code,
                       reply_body = [(''message'', ''Agent data saved.'')]\<rparr>"

text \<open>
  \<open>agent_data\<close>. \<open>names\<close> are the suffixes the temporary-name generator yields during
  the call. \<open>others\<close> is what other processes do to the file system between the test
  \<open>ready_file.exists()\<close> and \<open>shutil.move\<close>; alone on the machine it is the identity.
\<close>

definition agent_data ::
  "constants \<Rightarrow> string list \<Rightarrow> (fs \<Rightarrow> fs) \<Rightarrow> fs \<Rightarrow> string \<Rightarrow> upload_stream \<Rightarrow> (error + json reply) \<times> fs" where
  "agent_data c names others fs uuid upload_file =
     (let file_dir = joinpath (AGENT_OUTPUT_DIR c) uuid;
          file_path = joinpath file_dir ''received-output'' in
      case save_payload fs names file_dir file_path upload_file of
        (Inl e, fs') \<Rightarrow>
          (if e = FileNotFoundError then Inl (HTTPException 403 ''Host is not registered'')
           else Inl e, fs')
      | (Inr _, fs3) \<Rightarrow>
          (let ready_file =
                 joinpath (joinpath (REGISTRATION_REQUESTS c) ''READY'') (uuid @ ''.json'') in
           case get_hostname c fs3 uuid of
             Inl e \<Rightarrow> (Inl e, fs3)
           | Inr hostname \<Rightarrow>
               (case hostname of
                  None \<Rightarrow> (Inr agent_data_saved, fs3)
                | Some h \<Rightarrow>
                    if path_exists fs3 ready_file \<and> h \<noteq> [] then
                      (let fs4 = others fs3 in
                       case shutil_move fs4 ready_file
                              (joinpath (joinpath (REGISTRATION_REQUESTS c) ''DISCOVERABLE'')
                                 (h @ ''.json'')) of
                         Inl e \<Rightarrow>
                           (if e = FileNotFoundError then Inr agent_data_saved else Inl e, fs4)
                       | Inr fs5 \<Rightarrow> (Inr agent_data_saved, fs5))
                    else (Inr agent_data_saved, fs3))))"

section \<open>Example worlds\<close>

text \<open>
  An authority that answers every request with the same response, on a site named
  \<open>s\<close>, together with what the X.509 parser finds in every signing request.
\<close>

definition r_ok :: response where
  "r_ok = \<lparr>status_code = 200, resp_text = ''{}'', resp_json = Some [(''cert'', ''pem'')]\<rparr>"

definition r_created :: response where
  "r_created = \<lparr>status_code = 201, resp_text = ''{}'', resp_json = Some [(''cert'', ''pem'')]\<rparr>"

definition r_forbidden :: response where
  "r_forbidden = \<lparr>status_code = 403, resp_text = ''no'', resp_json = None\<rparr>"

definition authority :: "response \<Rightarrow> string list option \<Rightarrow> world" where
  "authority r cns = \<lparr>environ = [''OMD_SITE'' \<mapsto> ''s''],
     requests_post = (\<lambda>url headers body. Inr r),
     requests_get = (\<lambda>url headers. Inr r),
     csr_common_names = (\<lambda>csr. cns)\<rparr>"

text \<open>
  A directory layout with one host \<open>h1\<close> and one waiting registration request for the
  identity \<open>u1\<close>; the same after \<open>u1\<close> has been linked to \<open>h1\<close>; the same with a
  payload already stored. \<open>remove_ready\<close> is another process that takes the request
  away.
\<close>

definition c0 :: constants where
  "c0 = \<lparr>AGENT_OUTPUT_DIR = [''ao''], DATA_SOURCE_DIR = [''ds''],
          REGISTRATION_REQUESTS = [''rr'']\<rparr>"

definition fs_base :: fs where
  "fs_base = [[''ao''] \<mapsto> Dir, [''ds''] \<mapsto> Dir, [''ds'', ''h1''] \<mapsto> Dir, [''rr''] \<mapsto> Dir,
     [''rr'', ''READY''] \<mapsto> Dir, [''rr'', ''DISCOVERABLE''] \<mapsto> Dir,
     [''rr'', ''READY'', ''u1.json''] \<mapsto> File ''req'']"

definition fs_linked :: fs where
  "fs_linked = fs_base([''ao'', ''u1''] \<mapsto> Symlink [''ds'', ''h1''])"

definition fs_stored :: fs where
  "fs_stored = fs_linked([''ds'', ''h1'', ''received-output''] \<mapsto> File ''old'')"

definition remove_ready :: "fs \<Rightarrow> fs" where
  "remove_ready fs = fs([''rr'', ''READY'', ''u1.json''] := None)"

text \<open>A string that is a single path component: a file name.\<close>

definition component :: "string \<Rightarrow> bool" where
  "component s = (s \<noteq> [] \<and> s \<noteq> ''.'' \<and> CHR ''/'' \<notin> set s)"

section \<open>Properties of the forwarder and of pairing\<close>

lemma post_csr_authority: "post_csr (authority r cns) a csr = Inr r"
  by (simp add: post_csr_def forward_post_def local_rest_api_url_def authority_def)

lemma forward_get_authority: "forward_get (authority r cns) e a = Inr r"
  by (simp add: forward_get_def local_rest_api_url_def authority_def)

lemma uuid_authority:
  "uuid_from_pem_csr (authority r cns) csr =
     (case cns of None \<Rightarrow> Inr ''[CSR parsing failed]'' | Some [] \<Rightarrow> Inl IndexError
      | Some (cn # _) \<Rightarrow> Inr cn)"
  by (simp add: uuid_from_pem_csr_def authority_def)

text \<open>
  Claim C9. For every credential and host name, whenever the lookup at the authority
  answers with a response, \<open>host_exists\<close> returns true if and only if that response has
  status 200; every other status, 401 and 403 among them, gives false.
\<close>

theorem host_exists_iff_status_ok:
  assumes "forward_get w (''objects/host_config/'' @ host_name) authentication = Inr r"
  shows "host_exists w authentication host_name = Inr (status_code r = 200)"
  using assms by (simp add: host_exists_def HTTPStatus_OK_def)

theorem host_exists_iff_status_ok_witness:
  "host_exists (authority r_ok None) ''secret'' ''h1'' = Inr True \<and>
   host_exists (authority r_forbidden None) ''secret'' ''h1'' = Inr False"
proof -
  have "host_exists (authority r_ok None) ''secret'' ''h1'' = Inr (status_code r_ok = 200)"
    by (rule host_exists_iff_status_ok) (rule forward_get_authority)
  moreover
  have "host_exists (authority r_forbidden None) ''secret'' ''h1'' =
          Inr (status_code r_forbidden = 200)"
    by (rule host_exists_iff_status_ok) (rule forward_get_authority)
  ultimately show ?thesis
    by (simp add: r_ok_def r_forbidden_def)
qed

text \<open>
  Claim C2, as stated: the answer of \<open>pairing\<close> carries the status code of the
  authority on every outcome. It does not: the authority answers 201 with a decodable
  body, and the route returns that body with its own default status, 200.
\<close>

theorem pairing_status_counterexample:
  "post_csr (authority r_created (Some [''u1''])) (str_opt None) ''csr'' = Inr r_created \<and>
   status_code r_created = 201 \<and>
   pairing (authority r_created (Some [''u1''])) None ''csr'' =
     Inr \<lparr>reply_status = 200, reply_body = [(''cert'', ''pem'')]\<rparr>"
  by (simp add: pairing_def post_csr_authority uuid_authority)
     (simp add: ok_def r_created_def default_status_code_def)

text \<open>
  Claim C2, amended. For every pairing request that the authority answers and whose
  signing request gives a name to log: when the response is not \<open>ok\<close>, \<open>pairing\<close>
  raises \<open>HTTPException\<close> with exactly the status code and the text of the authority's
  response; when it is \<open>ok\<close>, \<open>pairing\<close> returns the decoded JSON body of the
  response with the status 200 of the route, whatever the status of the authority was
  (and the decoding error when the body is not JSON).
\<close>

theorem pairing_forwards:
  assumes "post_csr w (str_opt authentication) csr = Inr r"
    and "uuid_from_pem_csr w csr = Inr u"
  shows "pairing w authentication csr =
           (if ok r then
              (case resp_json r of
                 None \<Rightarrow> Inl JSONDecodeError
               | Some j \<Rightarrow> Inr \<lparr>reply_status = 200, reply_body = j\<rparr>)
            else Inl (HTTPException (status_code r) (resp_text r)))"
  using assms by (simp add: pairing_def default_status_code_def split: option.split)

theorem pairing_forwards_witness:
  "pairing (authority r_forbidden (Some [''u1''])) None ''csr'' = Inl (HTTPException 403 ''no'') \<and>
   pairing (authority r_ok None) None ''csr'' =
     Inr \<lparr>reply_status = 200, reply_body = [(''cert'', ''pem'')]\<rparr>"
proof -
  have "uuid_from_pem_csr (authority r_forbidden (Some [''u1''])) ''csr'' = Inr ''u1''"
    by (simp add: uuid_authority)
  from pairing_forwards [OF post_csr_authority this]
  have a: "pairing (authority r_forbidden (Some [''u1''])) None ''csr'' =
             Inl (HTTPException 403 ''no'')"
    by (simp add: ok_def r_forbidden_def)
  have "uuid_from_pem_csr (authority r_ok None) ''csr'' = Inr ''[CSR parsing failed]''"
    by (simp add: uuid_authority)
  from pairing_forwards [OF post_csr_authority this]
  have b: "pairing (authority r_ok None) None ''csr'' =
             Inr \<lparr>reply_status = 200, reply_body = [(''cert'', ''pem'')]\<rparr>"
    by (simp add: ok_def r_ok_def)
  from a b show ?thesis by simp
qed

text \<open>
  Claim C10. \<open>pairing\<close> is to raise \<open>HTTPException\<close> with the authority's status and
  text whenever that status is 400 or more. For a signing request that parses and whose
  subject has no common name, the authority answers 403 and \<open>pairing\<close> ends in
  \<open>IndexError\<close>: \<open>_uuid_from_pem_csr\<close>, called for the log line, catches
  \<open>ValueError\<close> only.
\<close>

theorem pairing_index_error:
  "post_csr (authority r_forbidden (Some [])) (str_opt None) ''csr'' = Inr r_forbidden \<and>
   status_code r_forbidden = 403 \<and>
   pairing (authority r_forbidden (Some [])) None ''csr'' = Inl IndexError"
  by (simp add: pairing_def post_csr_authority uuid_authority)
     (simp add: ok_def r_forbidden_def)

section \<open>Facts about paths, lookups and the primitives\<close>

lemma split_slash_noslash: "CHR ''/'' \<notin> set s \<Longrightarrow> split_slash s = [s]"
  by (induction s) auto

lemma joinpath_component: "component s \<Longrightarrow> joinpath p s = p @ [s]"
  by (cases s) (auto simp: component_def joinpath_def parts_def split_slash_noslash)

lemma path_name_snoc [simp]: "path_name (p @ [n]) = n"
  by (simp add: path_name_def)

lemma path_parent_snoc [simp]: "path_parent (p @ [n]) = p"
  by (simp add: path_parent_def)

lemma follow_nonlink: "(\<And>t. fs p \<noteq> Some (Symlink t)) \<Longrightarrow> follow n fs p = Inr p"
  by (cases n) (auto split: option.splits node.splits)

lemma follow_upd:
  "fs q = None \<Longrightarrow> follow n fs p = Inr d \<Longrightarrow> d \<noteq> q \<Longrightarrow> follow n (fs(q \<mapsto> x)) p = Inr d"
  by (induction n arbitrary: p) (auto split: option.splits node.splits)


lemma realdir_upd:
  assumes "fs q = None" and "realdir fs p = Inr d"
  shows "realdir (fs(q \<mapsto> x)) p = Inr d"
proof -
  from assms(2) have f: "follow 40 fs p = Inr d" and d: "fs d = Some Dir"
    by (auto simp: realdir_def split: sum.splits option.splits node.splits)
  from d assms(1) have "d \<noteq> q" by auto
  with follow_upd [OF assms(1) f] d show ?thesis
    by (simp add: realdir_def)
qed









lemma lpath_upd:
  assumes "fs q = None" and "lpath fs p = Inr r"
  shows "lpath (fs(q \<mapsto> x)) p = Inr r"
proof (cases "p = []")
  case True
  with assms show ?thesis by (simp add: lpath_def)
next
  case False
  with assms(2) obtain d where d: "realdir fs (path_parent p) = Inr d" and r: "r = d @ [path_name p]"
    by (auto simp: lpath_def split: sum.splits)
  from realdir_upd [OF assms(1) d] r False show ?thesis
    by (simp add: lpath_def)
qed

lemma os_symlink_Inr:
  "os_symlink fs target link = Inr fs' \<Longrightarrow>
   \<exists>q. lpath fs link = Inr q \<and> fs q = None \<and> fs' = fs(q \<mapsto> Symlink target)"
  by (auto simp: os_symlink_def split: sum.splits if_splits)

lemma readlink_after_symlink:
  assumes "os_symlink fs target link = Inr fs'"
  shows "os_readlink fs' link = Inr target"
proof -
  from os_symlink_Inr [OF assms] obtain q where
    q: "lpath fs link = Inr q" and n: "fs q = None" and f: "fs' = fs(q \<mapsto> Symlink target)"
    by blast
  from lpath_upd [OF n q] show ?thesis
    by (simp add: os_readlink_def lstat_def f)
qed

lemma lstat_missing_stat:
  "lstat fs p = Inl FileNotFoundError \<Longrightarrow> stat fs p = Inl FileNotFoundError"
  by (auto simp: lstat_def stat_def follow_nonlink split: sum.splits option.splits)

lemma shutil_move_missing:
  assumes "lstat fs src = Inl FileNotFoundError" and "\<not> os_path_isdir fs dst"
  shows "shutil_move fs src dst = Inl FileNotFoundError"
proof -
  note s = lstat_missing_stat [OF assms(1)]
  have r: "os_rename fs src dst = Inl FileNotFoundError"
    by (simp add: os_rename_def assms(1))
  have l: "\<not> os_path_islink fs src"
    by (simp add: os_path_islink_def assms(1))
  have d: "\<not> os_path_isdir fs src"
    by (simp add: os_path_isdir_def s)
  have c: "copy2 fs src dst = Inl FileNotFoundError"
    by (simp add: copy2_def s)
  from assms(2) r l d c show ?thesis
    by (simp add: shutil_move_def)
qed






lemma ready_path [simp]: "joinpath p ''READY'' = p @ [''READY'']"
  by (simp add: joinpath_def parts_def)

lemma discoverable_path [simp]: "joinpath p ''DISCOVERABLE'' = p @ [''DISCOVERABLE'']"
  by (simp add: joinpath_def parts_def)








lemma follow_numeral:
  "follow (numeral k) fs p =
     (case fs p of Some (Symlink t) \<Rightarrow> follow (pred_numeral k) fs t | _ \<Rightarrow> Inr p)"
  by (simp add: numeral_eq_Suc)

lemmas fs_eval = joinpath_def parts_def lpath_def lstat_def stat_def realdir_def follow_numeral
  path_parent_def path_name_def fs_base_def fs_linked_def fs_stored_def c0_def








lemmas run_eval = save_payload_def os_rename_def get_hostname_def os_readlink_def
  path_exists_def os_path_isdir_def os_path_islink_def fs_eval



section \<open>Registration\<close>



text \<open>
  Claim C6. Whenever the authority answers the lookup with a status other than 200,
  \<open>register_with_hostname\<close> raises \<open>HTTPException\<close> 404 with the detail
  \<open>Host <name> does not exist\<close> for the requested name and leaves the file system as it
  was. Whenever the authority answers 200 and nothing is at the link's place in the
  agent output directory, it creates the link to \<open>DATA_SOURCE_DIR/host_name\<close> there and
  returns 204.
\<close>

theorem register_unknown_host_or_link:
  "(forward_get w (''objects/host_config/'' @ host_name) (str_opt authentication) = Inr r \<and>
    status_code r \<noteq> 200 \<longrightarrow>
      register_with_hostname c w fs authentication uuid host_name =
        (Inl (HTTPException 404 (''Host '' @ host_name @ '' does not exist'')), fs)) \<and>
   (forward_get w (''objects/host_config/'' @ host_name) (str_opt authentication) = Inr r \<and>
    status_code r = 200 \<and>
    lpath fs (joinpath (AGENT_OUTPUT_DIR c) uuid) = Inr q \<and> fs q = None \<longrightarrow>
      register_with_hostname c w fs authentication uuid host_name =
        (Inr \<lparr>reply_status = 204, reply_body = ()\<rparr>,
         fs(q \<mapsto> Symlink (joinpath (DATA_SOURCE_DIR c) host_name))))"
  by (auto simp: register_with_hostname_def host_exists_def HTTPStatus_OK_def
      HTTP_404_NOT_FOUND_def HTTP_204_NO_CONTENT_def create_link_def os_symlink_def)

theorem register_unknown_host_or_link_witness:
  "register_with_hostname c0 (authority r_forbidden None) fs_base None ''u1'' ''h1'' =
     (Inl (HTTPException 404 ''Host h1 does not exist''), fs_base) \<and>
   register_with_hostname c0 (authority r_ok None) fs_base None ''u1'' ''h1'' =
     (Inr \<lparr>reply_status = 204, reply_body = ()\<rparr>, fs_linked)"
proof -
  have a: "status_code r_forbidden \<noteq> 200" and b: "status_code r_ok = 200"
    by (simp_all add: r_forbidden_def r_ok_def)
  have q: "lpath fs_base (joinpath (AGENT_OUTPUT_DIR c0) ''u1'') = Inr [''ao'', ''u1'']"
    and n: "fs_base [''ao'', ''u1''] = None"
    by (simp_all add: fs_eval)
  have t: "fs_base([''ao'', ''u1''] \<mapsto> Symlink (joinpath (DATA_SOURCE_DIR c0) ''h1'')) = fs_linked"
    by (simp add: fs_linked_def joinpath_def parts_def c0_def)
  from register_unknown_host_or_link
         [where w = "authority r_forbidden None" and host_name = "''h1''"
           and authentication = None and r = r_forbidden and c = c0 and fs = fs_base
           and uuid = "''u1''", THEN conjunct1, rule_format, OF conjI [OF forward_get_authority a]]
  have 1: "register_with_hostname c0 (authority r_forbidden None) fs_base None ''u1'' ''h1'' =
     (Inl (HTTPException 404 ''Host h1 does not exist''), fs_base)"
    by simp
  from register_unknown_host_or_link
         [where w = "authority r_ok None" and host_name = "''h1''"
           and authentication = None and r = r_ok and c = c0 and fs = fs_base
           and uuid = "''u1''" and q = "[''ao'', ''u1'']", THEN conjunct2, rule_format, OF conjI [OF forward_get_authority conjI [OF b conjI [OF q n]]]]
  have 2: "register_with_hostname c0 (authority r_ok None) fs_base None ''u1'' ''h1'' =
     (Inr \<lparr>reply_status = 204, reply_body = ()\<rparr>, fs_linked)"
    by (simp only: t)
  from 1 2 show ?thesis by simp
qed

text \<open>
  Claim C8, as stated: for every uuid and host name, \<open>get_hostname\<close> gives back the host
  name that \<open>_create_link\<close> was called with. It does not for the host name \<open>a/b\<close>:
  the link is made, to \<open>DATA_SOURCE_DIR/a/b\<close>, and \<open>get_hostname\<close> returns the final
  component \<open>b\<close>.
\<close>

theorem create_link_roundtrip_counterexample:
  "create_link fs_base (AGENT_OUTPUT_DIR c0) (DATA_SOURCE_DIR c0) ''u1'' ''a/b'' =
     Inr (fs_base([''ao'', ''u1''] \<mapsto> Symlink [''ds'', ''a'', ''b''])) \<and>
   get_hostname c0 (fs_base([''ao'', ''u1''] \<mapsto> Symlink [''ds'', ''a'', ''b''])) ''u1'' =
     Inr (Some ''b'')"
  by (simp add: create_link_def os_symlink_def get_hostname_def os_readlink_def fs_eval)

text \<open>
  Claim C8, amended. For every uuid and every host name that is a single path component
  (not empty, not \<open>.\<close>, without \<open>/\<close>): after \<open>_create_link\<close> has succeeded,
  \<open>get_hostname\<close> returns that host name. For every uuid with nothing at
  \<open>AGENT_OUTPUT_DIR/uuid\<close>, \<open>get_hostname\<close> returns \<open>None\<close> and does not raise.
\<close>

theorem create_link_then_get_hostname:
  "(create_link fs (AGENT_OUTPUT_DIR c) (DATA_SOURCE_DIR c) uuid host_name = Inr fs' \<and>
    host_name \<noteq> [] \<and> host_name \<noteq> ''.'' \<and> CHR ''/'' \<notin> set host_name \<longrightarrow>
      get_hostname c fs' uuid = Inr (Some host_name)) \<and>
   (lstat fs (joinpath (AGENT_OUTPUT_DIR c) uuid) = Inl FileNotFoundError \<longrightarrow>
      get_hostname c fs uuid = Inr None)"
proof (intro conjI impI)
  assume a: "create_link fs (AGENT_OUTPUT_DIR c) (DATA_SOURCE_DIR c) uuid host_name = Inr fs' \<and>
    host_name \<noteq> [] \<and> host_name \<noteq> ''.'' \<and> CHR ''/'' \<notin> set host_name"
  then have "component host_name" by (simp add: component_def)
  then have t: "joinpath (DATA_SOURCE_DIR c) host_name = DATA_SOURCE_DIR c @ [host_name]"
    by (rule joinpath_component)
  from a have "os_symlink fs (joinpath (DATA_SOURCE_DIR c) host_name)
                 (joinpath (AGENT_OUTPUT_DIR c) uuid) = Inr fs'"
    by (simp add: create_link_def)
  from readlink_after_symlink [OF this] t
  show "get_hostname c fs' uuid = Inr (Some host_name)"
    by (simp add: get_hostname_def)
next
  assume "lstat fs (joinpath (AGENT_OUTPUT_DIR c) uuid) = Inl FileNotFoundError"
  then show "get_hostname c fs uuid = Inr None"
    by (simp add: get_hostname_def os_readlink_def)
qed

theorem create_link_then_get_hostname_witness:
  "create_link fs_base (AGENT_OUTPUT_DIR c0) (DATA_SOURCE_DIR c0) ''u1'' ''h1'' = Inr fs_linked \<and>
   get_hostname c0 fs_linked ''u1'' = Inr (Some ''h1'') \<and>
   get_hostname c0 fs_base ''u2'' = Inr None"
proof -
  have cl: "create_link fs_base (AGENT_OUTPUT_DIR c0) (DATA_SOURCE_DIR c0) ''u1'' ''h1'' = Inr fs_linked"
    by (simp add: create_link_def os_symlink_def fs_eval)
  have nl: "lstat fs_base (joinpath (AGENT_OUTPUT_DIR c0) ''u2'') = Inl FileNotFoundError"
    by (simp add: fs_eval)
  from create_link_then_get_hostname [where fs = fs_base and c = c0 and uuid = "''u1''"
         and host_name = "''h1''" and fs' = fs_linked, THEN conjunct1] cl
  have 1: "get_hostname c0 fs_linked ''u1'' = Inr (Some ''h1'')" by simp
  from create_link_then_get_hostname [where fs = fs_base and c = c0 and uuid = "''u2''", THEN conjunct2] nl
  have 2: "get_hostname c0 fs_base ''u2'' = Inr None" by simp
  from cl 1 2 show ?thesis by simp
qed

section \<open>Data upload\<close>





text \<open>
  Claim C7. Take an upload whose payload has been saved, whose identity resolves to a
  host name, and whose READY artifact passes the test \<open>ready_file.exists()\<close>. If the
  artifact is gone when \<open>shutil.move\<close> runs (another process removed it in between),
  and the target \<open>DISCOVERABLE/<host>.json\<close> is not a directory, the move changes
  nothing and \<open>agent_data\<close> still returns its success message.
\<close>

theorem promotion_lost_race:
  fixes c names others fs uuid upload_file h
  defines "file_dir \<equiv> joinpath (AGENT_OUTPUT_DIR c) uuid"
  defines "ready_file \<equiv> joinpath (joinpath (REGISTRATION_REQUESTS c) ''READY'') (uuid @ ''.json'')"
  defines "discoverable \<equiv>
             joinpath (joinpath (REGISTRATION_REQUESTS c) ''DISCOVERABLE'') (h @ ''.json'')"
  assumes "save_payload fs names file_dir (joinpath file_dir ''received-output'') upload_file =
             (Inr (), fs3)"
    and "get_hostname c fs3 uuid = Inr (Some h)" and "h \<noteq> []"
    and "path_exists fs3 ready_file"
    and "lstat (others fs3) ready_file = Inl FileNotFoundError"
    and "\<not> os_path_isdir (others fs3) discoverable"
  shows "agent_data c names others fs uuid upload_file = (Inr agent_data_saved, others fs3)"
proof -
  have "shutil_move (others fs3) ready_file discoverable = Inl FileNotFoundError"
    using assms(8,9) by (rule shutil_move_missing)
  with assms(4-7) show ?thesis
    unfolding file_dir_def ready_file_def discoverable_def
    by (simp add: agent_data_def Let_def)
qed

theorem promotion_lost_race_witness:
  "fst (agent_data c0 [''x''] remove_ready fs_linked ''u1'' (Chunk ''data'' EOF)) =
     Inr agent_data_saved \<and>
   snd (agent_data c0 [''x''] remove_ready fs_linked ''u1'' (Chunk ''data'' EOF))
     [''rr'', ''DISCOVERABLE'', ''h1.json''] = None"
proof -
  let ?fd = "joinpath (AGENT_OUTPUT_DIR c0) ''u1''"
  let ?sp = "save_payload fs_linked [''x''] ?fd (joinpath ?fd ''received-output'') (Chunk ''data'' EOF)"
  let ?ready = "joinpath (joinpath (REGISTRATION_REQUESTS c0) ''READY'') (''u1'' @ ''.json'')"
  let ?disc = "joinpath (joinpath (REGISTRATION_REQUESTS c0) ''DISCOVERABLE'') (''h1'' @ ''.json'')"
  have "fst ?sp = Inr ()" by (simp add: run_eval)
  then have 1: "?sp = (Inr (), snd ?sp)" by (metis prod.collapse)
  have 2: "get_hostname c0 (snd ?sp) ''u1'' = Inr (Some ''h1'')" by (simp add: run_eval)
  have 3: "''h1'' \<noteq> []" by simp
  have 4: "path_exists (snd ?sp) ?ready" by (simp add: run_eval)
  have 5: "lstat (remove_ready (snd ?sp)) ?ready = Inl FileNotFoundError"
    by (simp add: remove_ready_def run_eval)
  have 6: "\<not> os_path_isdir (remove_ready (snd ?sp)) ?disc"
    by (simp add: remove_ready_def run_eval)
  have 7: "remove_ready (snd ?sp) [''rr'', ''DISCOVERABLE'', ''h1.json''] = None"
    by (simp add: remove_ready_def run_eval)
  from promotion_lost_race
         [where c = c0 and uuid = "''u1''" and h = "''h1''" and others = remove_ready
            and fs = fs_linked and names = "[''x'']" and upload_file = "Chunk ''data'' EOF"
            and ?fs3.0 = "snd ?sp", OF 1 2 3 4 5 6] 7
  show ?thesis by simp
qed



end
